theory Spec2Isabelle
  imports Main "HOL-Library.AList"
begin

section \<open>Python values and dictionaries\<close>

text \<open>
  The result and notification payloads of the application are Python dictionaries with
  string keys. A dictionary is an association list in insertion order with distinct keys:
  \<open>d[k] = v\<close> is \<open>AList.update k v d\<close>, which replaces the value in place when the key
  is present and appends the pair otherwise, as a Python dict does. Floating-point
  values are not represented.
\<close>

type_synonym timestamp = string

datatype pyval =
    PNone
  | PBool bool
  | PInt int
  | PStr string
  | PDict "(string \<times> pyval) list"

type_synonym dict = "(string \<times> pyval) list"

text \<open>\<open>d.get(k)\<close> and \<open>d.get(k, default)\<close>.\<close>

definition dict_get_default :: "dict \<Rightarrow> string \<Rightarrow> pyval \<Rightarrow> pyval" where
  "dict_get_default d k dflt = (case map_of d k of None \<Rightarrow> dflt | Some v \<Rightarrow> v)"

definition dict_get :: "dict \<Rightarrow> string \<Rightarrow> pyval" where
  "dict_get d k = dict_get_default d k PNone"

text \<open>\<open>{**d, **kw}\<close>: the items of \<open>kw\<close> are stored into \<open>d\<close> one after the other.\<close>

definition dict_merge :: "dict \<Rightarrow> dict \<Rightarrow> dict" where
  "dict_merge d kw = foldl (\<lambda>acc (k, v). AList.update k v acc) d kw"

text \<open>Truth value of an object in a condition (\<open>if x:\<close>).\<close>

fun truthy :: "pyval \<Rightarrow> bool" where
  "truthy PNone = False"
| "truthy (PBool b) = b"
| "truthy (PInt i) = (i \<noteq> 0)"
| "truthy (PStr s) = (s \<noteq> [])"
| "truthy (PDict d) = (d \<noteq> [])"

text \<open>
  A slice \<open>xs[start:]\<close>: a negative start counts from the end and is clipped at the
  beginning of the list, a start beyond the end gives the empty list.
\<close>

definition py_slice_from :: "int \<Rightarrow> 'a list \<Rightarrow> 'a list" where
  "py_slice_from start xs =
     (let n = int (length xs);
          i = (if start < 0 then max (n + start) 0 else min start n)
      in drop (nat i) xs)"

text \<open>\<open>str(n)\<close> of an integer, as an f-string renders it.\<close>

definition digit_char :: "nat \<Rightarrow> char" where
  "digit_char n = ''0123456789'' ! n"

fun str_nat :: "nat \<Rightarrow> string" where
  "str_nat n = (if n < 10 then [digit_char n] else str_nat (n div 10) @ [digit_char (n mod 10)])"

declare str_nat.simps [simp del]

definition str_int :: "int \<Rightarrow> string" where
  "str_int i = (if i < 0 then CHR ''-'' # str_nat (nat (- i)) else str_nat (nat i))"

text \<open>
  What a call can raise. \<open>ExitSignal\<close> stands for the exceptions that derive from
  \<open>BaseException\<close> but not from \<open>Exception\<close> (\<open>KeyboardInterrupt\<close>, \<open>SystemExit\<close>);
  every other constructor is an instance of \<open>Exception\<close>.
\<close>

datatype raised =
    TypeError
  | AttributeError
  | KeyError
  | OtherException string
  | ExitSignal string

fun is_Exception :: "raised \<Rightarrow> bool" where
  "is_Exception (ExitSignal s) = False"
| "is_Exception e = True"

section \<open>Devices (app/models/device.py)\<close>

datatype DeviceStatus = ACTIVE | INACTIVE | MAINTENANCE | ERROR

datatype DeviceType = STREET_LIGHT | TRAFFIC_SIGNAL | SECURITY_CAMERA | WATER_METER | POWER_METER

text \<open>
  The dataclass \<open>Device\<close> and its three subclasses. \<open>last_updated\<close> holds the reading of
  the clock; every method that calls \<open>datetime.now()\<close> takes that reading as its
  argument \<open>now\<close>.
\<close>

record Device =
  device_id :: string
  name :: string
  device_type :: "DeviceType option"
  status :: DeviceStatus
  location :: string
  last_updated :: timestamp
  metadata :: dict

record StreetLight = Device +
  brightness :: int
  auto_mode :: bool

record TrafficSignal = Device +
  current_signal :: string
  cycle_duration :: int

record SecurityCamera = Device +
  recording :: bool
  motion_detection :: bool
  resolution :: string

text \<open>
  The constructors with the dataclass defaults. \<open>__post_init__\<close> replaces an empty
  \<open>device_id\<close> by a fresh UUID, here the argument \<open>uuid\<close>, and sets the device type.
\<close>

definition StreetLight_init :: "string \<Rightarrow> string \<Rightarrow> timestamp \<Rightarrow> string \<Rightarrow> StreetLight" where
  "StreetLight_init did nm now uuid =
     \<lparr> device_id = (if did = [] then uuid else did), name = nm,
       device_type = Some STREET_LIGHT, status = INACTIVE, location = ''Unknown'',
       last_updated = now, metadata = [], brightness = 0, auto_mode = True \<rparr>"

definition TrafficSignal_init :: "string \<Rightarrow> string \<Rightarrow> timestamp \<Rightarrow> string \<Rightarrow> TrafficSignal" where
  "TrafficSignal_init did nm now uuid =
     \<lparr> device_id = (if did = [] then uuid else did), name = nm,
       device_type = Some TRAFFIC_SIGNAL, status = INACTIVE, location = ''Unknown'',
       last_updated = now, metadata = [], current_signal = ''red'', cycle_duration = 60 \<rparr>"

definition SecurityCamera_init :: "string \<Rightarrow> string \<Rightarrow> timestamp \<Rightarrow> string \<Rightarrow> SecurityCamera" where
  "SecurityCamera_init did nm now uuid =
     \<lparr> device_id = (if did = [] then uuid else did), name = nm,
       device_type = Some SECURITY_CAMERA, status = INACTIVE, location = ''Unknown'',
       last_updated = now, metadata = [], recording = False, motion_detection = True,
       resolution = ''1080p'' \<rparr>"

subsection \<open>StreetLight\<close>

definition StreetLight_activate :: "timestamp \<Rightarrow> StreetLight \<Rightarrow> bool \<times> StreetLight" where
  "StreetLight_activate now d =
     (True, d\<lparr>status := ACTIVE, brightness := 100, last_updated := now\<rparr>)"

definition StreetLight_deactivate :: "timestamp \<Rightarrow> StreetLight \<Rightarrow> bool \<times> StreetLight" where
  "StreetLight_deactivate now d =
     (True, d\<lparr>status := INACTIVE, brightness := 0, last_updated := now\<rparr>)"

definition set_brightness :: "int \<Rightarrow> timestamp \<Rightarrow> StreetLight \<Rightarrow> bool \<times> StreetLight" where
  "set_brightness level now d =
     (if 0 \<le> level \<and> level \<le> 100
      then (True, d\<lparr>brightness := level,
                     status := (if level > 0 then ACTIVE else INACTIVE),
                     last_updated := now\<rparr>)
      else (False, d))"

subsection \<open>TrafficSignal\<close>

definition TrafficSignal_activate :: "timestamp \<Rightarrow> TrafficSignal \<Rightarrow> bool \<times> TrafficSignal" where
  "TrafficSignal_activate now d =
     (True, d\<lparr>status := ACTIVE, current_signal := ''green'', last_updated := now\<rparr>)"

definition TrafficSignal_deactivate :: "timestamp \<Rightarrow> TrafficSignal \<Rightarrow> bool \<times> TrafficSignal" where
  "TrafficSignal_deactivate now d =
     (True, d\<lparr>status := INACTIVE, current_signal := ''red'', last_updated := now\<rparr>)"

definition set_signal :: "string \<Rightarrow> timestamp \<Rightarrow> TrafficSignal \<Rightarrow> bool \<times> TrafficSignal" where
  "set_signal signal now d =
     (if signal \<in> set [''red'', ''yellow'', ''green'']
      then (True, d\<lparr>current_signal := signal, status := ACTIVE, last_updated := now\<rparr>)
      else (False, d))"

subsection \<open>SecurityCamera\<close>

definition SecurityCamera_activate :: "timestamp \<Rightarrow> SecurityCamera \<Rightarrow> bool \<times> SecurityCamera" where
  "SecurityCamera_activate now d =
     (True, d\<lparr>status := ACTIVE, recording := True, last_updated := now\<rparr>)"

definition SecurityCamera_deactivate :: "timestamp \<Rightarrow> SecurityCamera \<Rightarrow> bool \<times> SecurityCamera" where
  "SecurityCamera_deactivate now d =
     (True, d\<lparr>status := INACTIVE, recording := False, last_updated := now\<rparr>)"

definition toggle_motion_detection :: "timestamp \<Rightarrow> SecurityCamera \<Rightarrow> bool \<times> SecurityCamera" where
  "toggle_motion_detection now d =
     (\<not> motion_detection d,
      d\<lparr>motion_detection := \<not> motion_detection d, last_updated := now\<rparr>)"

subsection \<open>A device object of any of the three classes\<close>

datatype device = Light StreetLight | Signal TrafficSignal | Camera SecurityCamera

text \<open>Dynamic dispatch of \<open>device.activate()\<close> and \<open>device.deactivate()\<close>.\<close>

fun activate :: "timestamp \<Rightarrow> device \<Rightarrow> bool \<times> device" where
  "activate now (Light d) = map_prod id Light (StreetLight_activate now d)"
| "activate now (Signal d) = map_prod id Signal (TrafficSignal_activate now d)"
| "activate now (Camera d) = map_prod id Camera (SecurityCamera_activate now d)"

fun deactivate :: "timestamp \<Rightarrow> device \<Rightarrow> bool \<times> device" where
  "deactivate now (Light d) = map_prod id Light (StreetLight_deactivate now d)"
| "deactivate now (Signal d) = map_prod id Signal (TrafficSignal_deactivate now d)"
| "deactivate now (Camera d) = map_prod id Camera (SecurityCamera_deactivate now d)"

text \<open>\<open>device.status\<close>, an attribute of every device.\<close>

fun status_of :: "device \<Rightarrow> DeviceStatus" where
  "status_of (Light d) = status d"
| "status_of (Signal d) = status d"
| "status_of (Camera d) = status d"

text \<open>\<open>getattr(device, 'brightness', dflt)\<close>: only a street light has the attribute.\<close>

fun getattr_brightness :: "device \<Rightarrow> int \<Rightarrow> int" where
  "getattr_brightness (Light d) dflt = brightness d"
| "getattr_brightness _ dflt = dflt"

section \<open>Commands (app/commands/infrastructure\_commands.py)\<close>

text \<open>
  The banking collaborator of \<open>ProcessPaymentCommand\<close> is whatever object the caller
  passes to the constructor; the command calls its two methods and nothing else. It is
  taken as a pair of functions over the collaborator's own state \<open>'b\<close>, each returning
  its result dictionary. Amounts are integers.
\<close>

record 'b banking =
  process_payment :: "string \<Rightarrow> int \<Rightarrow> string \<Rightarrow> string \<Rightarrow> string \<Rightarrow> 'b \<Rightarrow> dict \<times> 'b"
  refund_transaction :: "pyval \<Rightarrow> 'b \<Rightarrow> dict \<times> 'b"

text \<open>
  The objects the commands work on: the registry \<open>_devices\<close> of the city controller, a
  dictionary from device id to device object, and the state of the banking collaborator.
  A method that mutates a registered device stores the new device under its key.
\<close>

record 'b world =
  devices :: "string \<rightharpoonup> device"
  bank :: 'b

definition get_device :: "'b world \<Rightarrow> string \<Rightarrow> device option" where
  "get_device w did = devices w did"

text \<open>
  A command object with the attributes its constructor sets. The last argument of each
  device command is the snapshot taken by \<open>execute\<close> (\<open>None\<close> after construction); the
  last argument of a payment is \<open>_transaction_id\<close> (\<open>PNone\<close> after construction).
\<close>

datatype 'b Command =
    LightOnCommand string int "(DeviceStatus \<times> int) option"
  | LightOffCommand string "int option"
  | TrafficGreenCommand string "string option"
  | TrafficRedCommand string "string option"
  | ProcessPaymentCommand "'b banking" string int string string string pyval

definition not_found :: "string \<Rightarrow> string \<Rightarrow> dict" where
  "not_found what did =
     [(''success'', PBool False), (''error'', PStr (what @ '' '' @ did @ '' not found''))]"

definition failure :: "string \<Rightarrow> dict" where
  "failure msg = [(''success'', PBool False), (''error'', PStr msg)]"

text \<open>
  \<open>execute()\<close> returns the result, the command with its snapshot, and the new world. The
  device methods it calls and the \<open>timestamp\<close> of its result get the clock reading \<open>now\<close>
  of the call. Only the payment can raise:
  \<open>result.get('transaction', {}).get('transaction_id')\<close> needs a dictionary under the key
  \<open>transaction\<close>.
\<close>

fun execute :: "'b Command \<Rightarrow> timestamp \<Rightarrow> 'b world \<Rightarrow> (raised + dict) \<times> 'b Command \<times> 'b world" where
  "execute (LightOnCommand did br prev) now w =
     (case get_device w did of
        Some device \<Rightarrow>
          (let prev' = Some (status_of device, getattr_brightness device 0);
               (result, d1) = activate now device;
               d2 = (case d1 of Light l \<Rightarrow> Light (snd (set_brightness br now l)) | _ \<Rightarrow> d1)
           in (Inr [(''success'', PBool result), (''device_id'', PStr did),
                    (''action'', PStr ''light_on''), (''brightness'', PInt br),
                    (''timestamp'', PStr now)],
               LightOnCommand did br prev',
               w\<lparr>devices := (devices w)(did \<mapsto> d2)\<rparr>))
      | None \<Rightarrow> (Inr (not_found ''Device'' did), LightOnCommand did br prev, w))"
| "execute (LightOffCommand did prev) now w =
     (case get_device w did of
        Some device \<Rightarrow>
          (let prev' = Some (getattr_brightness device 100);
               (result, d1) = deactivate now device
           in (Inr [(''success'', PBool result), (''device_id'', PStr did),
                    (''action'', PStr ''light_off''), (''timestamp'', PStr now)],
               LightOffCommand did prev',
               w\<lparr>devices := (devices w)(did \<mapsto> d1)\<rparr>))
      | None \<Rightarrow> (Inr (not_found ''Device'' did), LightOffCommand did prev, w))"
| "execute (TrafficGreenCommand did prev) now w =
     (case get_device w did of
        Some (Signal s) \<Rightarrow>
          (let prev' = Some (current_signal s);
               (result, s1) = set_signal ''green'' now s
           in (Inr [(''success'', PBool result), (''device_id'', PStr did),
                    (''action'', PStr ''traffic_green''), (''signal'', PStr ''green''),
                    (''timestamp'', PStr now)],
               TrafficGreenCommand did prev',
               w\<lparr>devices := (devices w)(did \<mapsto> Signal s1)\<rparr>))
      | _ \<Rightarrow> (Inr (not_found ''Traffic signal'' did), TrafficGreenCommand did prev, w))"
| "execute (TrafficRedCommand did prev) now w =
     (case get_device w did of
        Some (Signal s) \<Rightarrow>
          (let prev' = Some (current_signal s);
               (result, s1) = set_signal ''red'' now s
           in (Inr [(''success'', PBool result), (''device_id'', PStr did),
                    (''action'', PStr ''traffic_red''), (''signal'', PStr ''red''),
                    (''timestamp'', PStr now)],
               TrafficRedCommand did prev',
               w\<lparr>devices := (devices w)(did \<mapsto> Signal s1)\<rparr>))
      | _ \<Rightarrow> (Inr (not_found ''Traffic signal'' did), TrafficRedCommand did prev, w))"
| "execute (ProcessPaymentCommand api resident amount currency ptype descr tid) now w =
     (let (result, b') = process_payment api resident amount currency ptype descr (bank w);
          w' = w\<lparr>bank := b'\<rparr>
      in if truthy (dict_get result ''success'')
         then (case dict_get_default result ''transaction'' (PDict []) of
                 PDict t \<Rightarrow>
                   (Inr result,
                    ProcessPaymentCommand api resident amount currency ptype descr
                      (dict_get t ''transaction_id''),
                    w')
               | _ \<Rightarrow>
                   (Inl AttributeError,
                    ProcessPaymentCommand api resident amount currency ptype descr tid, w'))
         else (Inr result,
               ProcessPaymentCommand api resident amount currency ptype descr tid, w'))"

text \<open>\<open>undo()\<close> never assigns an attribute of the command: it returns the result and the world.\<close>

fun undo :: "'b Command \<Rightarrow> timestamp \<Rightarrow> 'b world \<Rightarrow> dict \<times> 'b world" where
  "undo (LightOnCommand did br prev) now w =
     (case prev of
        Some p \<Rightarrow>
          (case get_device w did of
             Some device \<Rightarrow>
               ([(''success'', PBool True), (''action'', PStr ''undo_light_on'')],
                w\<lparr>devices := (devices w)(did \<mapsto> snd (deactivate now device))\<rparr>)
           | None \<Rightarrow> (failure ''No previous state to restore'', w))
      | None \<Rightarrow> (failure ''No previous state to restore'', w))"
| "undo (LightOffCommand did prev) now w =
     (case get_device w did of
        Some device \<Rightarrow>
          (case prev of
             Some pb \<Rightarrow>
               if pb \<noteq> 0
               then (let d1 = snd (activate now device);
                         d2 = (case d1 of Light l \<Rightarrow> Light (snd (set_brightness pb now l))
                                        | _ \<Rightarrow> d1)
                     in ([(''success'', PBool True), (''action'', PStr ''undo_light_off'')],
                         w\<lparr>devices := (devices w)(did \<mapsto> d2)\<rparr>))
               else (failure ''Cannot undo'', w)
           | None \<Rightarrow> (failure ''Cannot undo'', w))
      | None \<Rightarrow> (failure ''Cannot undo'', w))"
| "undo (TrafficGreenCommand did prev) now w =
     (case prev of
        Some ps \<Rightarrow>
          if ps \<noteq> []
          then (case get_device w did of
                  Some (Signal s) \<Rightarrow>
                    ([(''success'', PBool True), (''action'', PStr ''undo_traffic_green'')],
                     w\<lparr>devices := (devices w)(did \<mapsto> Signal (snd (set_signal ps now s)))\<rparr>)
                | _ \<Rightarrow> (failure ''Cannot undo'', w))
          else (failure ''Cannot undo'', w)
      | None \<Rightarrow> (failure ''Cannot undo'', w))"
| "undo (TrafficRedCommand did prev) now w =
     (case prev of
        Some ps \<Rightarrow>
          if ps \<noteq> []
          then (case get_device w did of
                  Some (Signal s) \<Rightarrow>
                    ([(''success'', PBool True), (''action'', PStr ''undo_traffic_red'')],
                     w\<lparr>devices := (devices w)(did \<mapsto> Signal (snd (set_signal ps now s)))\<rparr>)
                | _ \<Rightarrow> (failure ''Cannot undo'', w))
          else (failure ''Cannot undo'', w)
      | None \<Rightarrow> (failure ''Cannot undo'', w))"
| "undo (ProcessPaymentCommand api resident amount currency ptype descr tid) now w =
     (if truthy tid
      then (let (result, b') = refund_transaction api tid (bank w)
            in (result, w\<lparr>bank := b'\<rparr>))
      else (failure ''No transaction to refund'', w))"

fun get_description :: "'b Command \<Rightarrow> string" where
  "get_description (LightOnCommand did br prev) =
     ''Turn on light '' @ did @ '' at '' @ str_int br @ ''% brightness''"
| "get_description (LightOffCommand did prev) = ''Turn off light '' @ did"
| "get_description (TrafficGreenCommand did prev) = ''Set traffic signal '' @ did @ '' to green''"
| "get_description (TrafficRedCommand did prev) = ''Set traffic signal '' @ did @ '' to red''"
| "get_description (ProcessPaymentCommand api resident amount currency ptype descr tid) =
     ''Process '' @ ptype @ '' payment of '' @ str_int amount @ '' '' @ currency"

subsection \<open>CommandInvoker\<close>

text \<open>
  A history entry is the dictionary \<open>{'command', 'result', 'timestamp'}\<close>. It and the undo
  stack hold the command object; \<open>get_description\<close> reads only attributes that no method
  assigns after construction, and \<open>undo\<close> reads the snapshot of the last \<open>execute\<close>.
\<close>

record 'b history_entry =
  h_command :: "'b Command"
  h_result :: dict
  h_timestamp :: timestamp

record 'b CommandInvoker =
  history :: "'b history_entry list"
  undo_stack :: "'b Command list"

definition CommandInvoker_init :: "'b CommandInvoker" where
  "CommandInvoker_init = \<lparr> history = [], undo_stack = [] \<rparr>"

definition Invoker_execute ::
  "'b Command \<Rightarrow> timestamp \<Rightarrow> 'b CommandInvoker \<Rightarrow> 'b world
     \<Rightarrow> (raised + dict) \<times> 'b CommandInvoker \<times> 'b world" where
  "Invoker_execute cmd now ivk w =
     (case execute cmd now w of
        (Inl e, cmd', w') \<Rightarrow> (Inl e, ivk, w')
      | (Inr result, cmd', w') \<Rightarrow>
          (Inr result,
           ivk\<lparr>history := history ivk @
                   [\<lparr> h_command = cmd', h_result = result, h_timestamp = now \<rparr>],
               undo_stack := undo_stack ivk @ [cmd']\<rparr>,
           w'))"

definition Invoker_undo ::
  "timestamp \<Rightarrow> 'b CommandInvoker \<Rightarrow> 'b world \<Rightarrow> dict option \<times> 'b CommandInvoker \<times> 'b world" where
  "Invoker_undo now ivk w =
     (if undo_stack ivk \<noteq> []
      then (let (r, w') = undo (last (undo_stack ivk)) now w
            in (Some r, ivk\<lparr>undo_stack := butlast (undo_stack ivk)\<rparr>, w'))
      else (None, ivk, w))"

definition history_view :: "'b history_entry \<Rightarrow> dict" where
  "history_view h =
     [(''command'', PStr (get_description (h_command h))),
      (''success'', dict_get_default (h_result h) ''success'' (PBool False)),
      (''timestamp'', PStr (h_timestamp h))]"

definition get_history :: "int \<Rightarrow> 'b CommandInvoker \<Rightarrow> dict list" where
  "get_history limit ivk = map history_view (py_slice_from (- limit) (history ivk))"

section \<open>Notification service (app/services/notification\_service.py)\<close>

text \<open>
  The service hands the same dictionary object to its log, to its security index, to
  every observer and to the caller, and it loops over the list of observers while the
  observers run. So observers and notification dictionaries are objects in a store,
  named by references, and the three lists of the service hold references.
\<close>

type_synonym ref = nat

text \<open>
  The three observers of the module keep a list of the records they accepted, each a
  new dictionary. The class \<open>Observer\<close> is abstract, so a service can hold observers
  written elsewhere: \<open>CustomObserver\<close> carries the name of such a class and the
  attributes of the instance. Console output is not modelled.
\<close>

datatype Observer =
    SecurityObserver "dict list"
  | TransactionObserver "dict list"
  | EmergencyObserver "dict list"
  | CustomObserver string pyval

text \<open>
  \<open>_observers\<close> is the list of attached observers in attachment order,
  \<open>_notifications\<close> the log and \<open>_security_alerts\<close> the index of security and emergency
  records. \<open>objects\<close> and \<open>records\<close> are the store: the observer and the dictionary
  behind each reference. What the store holds behind a reference that is in none of the
  lists does not matter to the service.
\<close>

record NotificationService =
  observers :: "ref list"
  notifications :: "ref list"
  security_alerts :: "ref list"
  objects :: "ref \<Rightarrow> Observer"
  records :: "ref \<Rightarrow> dict"

text \<open>
  The \<open>update\<close> methods of the observer classes written elsewhere, by class name. Such a
  method gets the observer itself, the notification and the clock reading; it can do
  anything to the service and the store (detach itself, attach another observer, write
  into the notification), and it returns or raises.
\<close>

type_synonym classes =
  "string \<Rightarrow> ref \<Rightarrow> ref \<Rightarrow> timestamp \<Rightarrow> NotificationService
     \<Rightarrow> NotificationService \<times> raised option"

definition NotificationService_init :: NotificationService where
  "NotificationService_init =
     \<lparr> observers = [], notifications = [], security_alerts = [],
       objects = (\<lambda>r. SecurityObserver []), records = (\<lambda>r. []) \<rparr>"

text \<open>Membership in \<open>_observers\<close> compares the observers by identity.\<close>

definition attach :: "ref \<Rightarrow> NotificationService \<Rightarrow> NotificationService" where
  "attach observer s =
     (if observer \<notin> set (observers s) then s\<lparr>observers := observers s @ [observer]\<rparr> else s)"

definition detach :: "ref \<Rightarrow> NotificationService \<Rightarrow> NotificationService" where
  "detach observer s =
     (if observer \<in> set (observers s)
      then s\<lparr>observers := remove1 observer (observers s)\<rparr> else s)"

text \<open>\<open>observer.update(notification)\<close>, dispatched on the class of the observer.\<close>

definition update ::
  "classes \<Rightarrow> ref \<Rightarrow> ref \<Rightarrow> timestamp \<Rightarrow> NotificationService
     \<Rightarrow> NotificationService \<times> raised option" where
  "update classes self notification now s =
     (case objects s self of
        SecurityObserver alerts \<Rightarrow>
          (if dict_get (records s notification) ''type''
                \<in> set [PStr ''security'', PStr ''emergency'']
           then s\<lparr>objects := (objects s)(self := SecurityObserver (alerts @
                    [dict_merge (records s notification)
                       [(''processed_at'', PStr now), (''status'', PStr ''received'')]]))\<rparr>
           else s,
           None)
      | TransactionObserver notes \<Rightarrow>
          (if dict_get (records s notification) ''type'' = PStr ''transaction''
           then s\<lparr>objects := (objects s)(self := TransactionObserver (notes @
                    [dict_merge (records s notification) [(''processed_at'', PStr now)]]))\<rparr>
           else s,
           None)
      | EmergencyObserver emergencies \<Rightarrow>
          (if dict_get (records s notification) ''type'' = PStr ''emergency''
           then s\<lparr>objects := (objects s)(self := EmergencyObserver (emergencies @
                    [dict_merge (records s notification)
                       [(''escalated'', PBool True), (''escalated_at'', PStr now)]]))\<rparr>
           else s,
           None)
      | CustomObserver cls attrs \<Rightarrow> classes cls self notification now s)"

text \<open>
  The loop \<open>for observer in self._observers: try: observer.update(notification) except
  Exception\<close>. The iterator keeps a position \<open>i\<close> in the list and looks at the list as it is
  when the next observer is due. \<open>attach\<close> and \<open>detach\<close> change the list object in place,
  so a change of the list by an observer shows in the same loop; a list that grows with
  every step keeps the loop running, and then there is no result. The handler catches instances of \<open>Exception\<close> only; anything else leaves the
  loop and the call. The result is the state after the loop and what propagated.
\<close>

partial_function (option) fan_out ::
  "classes \<Rightarrow> nat \<Rightarrow> ref \<Rightarrow> timestamp \<Rightarrow> NotificationService
     \<Rightarrow> (NotificationService \<times> raised option) option" where
  "fan_out classes i notification now s =
     (if i < length (observers s)
      then (case update classes (observers s ! i) notification now s of
              (s', None) \<Rightarrow> fan_out classes (Suc i) notification now s'
            | (s', Some e) \<Rightarrow>
                if is_Exception e then fan_out classes (Suc i) notification now s'
                else Some (s', Some e))
      else Some (s, None))"

declare fan_out.simps [code]

text \<open>
  A new dictionary is an object of its own: its reference is none of those in the log
  or the index.
\<close>

definition fresh_ref :: "NotificationService \<Rightarrow> ref" where
  "fresh_ref s = Suc (foldr max (notifications s @ security_alerts s) 0)"

text \<open>
  \<open>notify(message, notification_type, **kwargs)\<close> with its parameters bound. The record
  is the dictionary display \<open>{'id': ..., 'message': ..., 'type': ..., 'timestamp': ...,
  **kwargs}\<close>.
\<close>

definition new_notification ::
  "pyval \<Rightarrow> pyval \<Rightarrow> dict \<Rightarrow> timestamp \<Rightarrow> NotificationService \<Rightarrow> dict" where
  "new_notification message notification_type kwargs now s =
     dict_merge
       [(''id'', PInt (int (length (notifications s)) + 1)),
        (''message'', message),
        (''type'', notification_type),
        (''timestamp'', PStr now)]
       kwargs"

text \<open>The part of \<open>notify\<close> before the loop: create the record, append it, index it.\<close>

definition store_notification ::
  "pyval \<Rightarrow> pyval \<Rightarrow> dict \<Rightarrow> timestamp \<Rightarrow> NotificationService
     \<Rightarrow> ref \<times> NotificationService" where
  "store_notification message notification_type kwargs now s =
     (let notification = fresh_ref s;
          s1 = s\<lparr>records := (records s)
                     (notification := new_notification message notification_type kwargs now s),
                 notifications := notifications s @ [notification]\<rparr>;
          s2 = (if notification_type \<in> set [PStr ''security'', PStr ''emergency'']
                then s1\<lparr>security_alerts := security_alerts s1 @ [notification]\<rparr>
                else s1)
      in (notification, s2))"

text \<open>
  \<open>notify\<close> returns the notification object, here the dictionary it holds when the call
  returns. \<open>None\<close> is a call that does not return.
\<close>

definition notify ::
  "classes \<Rightarrow> pyval \<Rightarrow> pyval \<Rightarrow> dict \<Rightarrow> timestamp \<Rightarrow> NotificationService
     \<Rightarrow> ((raised + dict) \<times> NotificationService) option" where
  "notify classes message notification_type kwargs now s =
     (let (notification, s2) = store_notification message notification_type kwargs now s
      in case fan_out classes 0 notification now s2 of
           None \<Rightarrow> None
         | Some (s3, None) \<Rightarrow> Some (Inr (records s3 notification), s3)
         | Some (s3, Some e) \<Rightarrow> Some (Inl e, s3))"


text \<open>The dictionaries the log and the index refer to, in order.\<close>

definition stored :: "NotificationService \<Rightarrow> dict list" where
  "stored s = map (records s) (notifications s)"

definition stored_alerts :: "NotificationService \<Rightarrow> dict list" where
  "stored_alerts s = map (records s) (security_alerts s)"



definition clear_old_notifications ::
  "int \<Rightarrow> NotificationService \<Rightarrow> int \<times> NotificationService" where
  "clear_old_notifications keep_count s =
     (if int (length (notifications s)) > keep_count
      then (int (length (notifications s)) - keep_count,
            s\<lparr>notifications := py_slice_from (- keep_count) (notifications s)\<rparr>)
      else (0, s))"

section \<open>Sequences of calls on one device\<close>

text \<open>
  The public mutators of a device, called one after the other, each at its own clock
  reading. Calling a method the class does not have raises \<open>AttributeError\<close> and ends the
  sequence.
\<close>

datatype call = Activate | Deactivate | SetBrightness int | SetSignal string

fun apply_call :: "call \<Rightarrow> timestamp \<Rightarrow> device \<Rightarrow> raised + device" where
  "apply_call Activate now d = Inr (snd (activate now d))"
| "apply_call Deactivate now d = Inr (snd (deactivate now d))"
| "apply_call (SetBrightness level) now (Light l) = Inr (Light (snd (set_brightness level now l)))"
| "apply_call (SetBrightness level) now d = Inl AttributeError"
| "apply_call (SetSignal sg) now (Signal s) = Inr (Signal (snd (set_signal sg now s)))"
| "apply_call (SetSignal sg) now d = Inl AttributeError"

fun run_calls :: "(call \<times> timestamp) list \<Rightarrow> device \<Rightarrow> raised + device" where
  "run_calls [] d = Inr d"
| "run_calls ((c, now) # cs) d =
     (case apply_call c now d of Inl e \<Rightarrow> Inl e | Inr d' \<Rightarrow> run_calls cs d')"

section \<open>The sample installation (app/main.py)\<close>

text \<open>
  The devices the application registers at start-up, with a banking collaborator that
  refuses every payment and knows no transaction, and a street light dimmed to 40.
\<close>

definition sample_light :: StreetLight where
  "sample_light = StreetLight_init ''SL001'' ''Main Street Light 1'' ''t0'' ''uuid-1''"

definition sample_signal :: TrafficSignal where
  "sample_signal = TrafficSignal_init ''TS001'' ''Central Intersection'' ''t0'' ''uuid-2''"

definition sample_camera :: SecurityCamera where
  "sample_camera = SecurityCamera_init ''SC001'' ''City Hall Entrance'' ''t0'' ''uuid-3''"

definition sample_bank :: "unit banking" where
  "sample_bank =
     \<lparr> process_payment = (\<lambda>resident amount currency ptype descr b.
          ([(''success'', PBool False), (''error'', PStr ''Insufficient funds'')], b)),
       refund_transaction = (\<lambda>tid b.
          ([(''success'', PBool False), (''error'', PStr ''Transaction not found'')], b)) \<rparr>"

definition sample_world :: "unit world" where
  "sample_world =
     \<lparr> devices = [''SL001'' \<mapsto> Light sample_light, ''TS001'' \<mapsto> Signal sample_signal,
                   ''SC001'' \<mapsto> Camera sample_camera],
       bank = () \<rparr>"

definition dimmed_light :: StreetLight where
  "dimmed_light = sample_light\<lparr>status := ACTIVE, brightness := 40\<rparr>"

definition dimmed_world :: "unit world" where
  "dimmed_world = sample_world\<lparr>devices := (devices sample_world)(''SL001'' \<mapsto> Light dimmed_light)\<rparr>"

text \<open>
  Observer classes written outside the module. With \<open>no_classes\<close> every such \<open>update\<close>
  returns at once. In \<open>raising_classes\<close> the class \<open>Faulty\<close> always raises an exception
  that is an instance of \<open>Exception\<close>. In \<open>unruly_classes\<close> a \<open>Quitter\<close> detaches itself
  and raises, an \<open>Interrupted\<close> raises \<open>KeyboardInterrupt\<close>, and a \<open>Redactor\<close> overwrites
  the message of the notification it is handed.
\<close>

definition no_classes :: classes where
  "no_classes cls self notification now s = (s, None)"


definition unruly_classes :: classes where
  "unruly_classes cls self notification now s =
     (if cls = ''Quitter'' then (detach self s, Some (OtherException ''boom''))
      else if cls = ''Interrupted'' then (s, Some (ExitSignal ''KeyboardInterrupt''))
      else if cls = ''Redactor''
        then (s\<lparr>records := (records s)
                   (notification :=
                      AList.update ''message'' (PStr ''redacted'') (records s notification))\<rparr>,
              None)
      else (s, None))"





definition redactor_service :: NotificationService where
  "redactor_service =
     attach 1
       (NotificationService_init\<lparr>objects :=
          (objects NotificationService_init)(1 := CustomObserver ''Redactor'' PNone)\<rparr>)"

section \<open>Observer classes that leave the service alone\<close>


section \<open>The status condition of a device\<close>

text \<open>
  The relation between \<open>status\<close> and the fields of each class that the methods maintain:
  a street light is Active exactly when its brightness is positive, a camera exactly when
  it records, and an Active traffic signal shows one of the three colours.
\<close>

fun status_consistent :: "device \<Rightarrow> bool" where
  "status_consistent (Light l) = ((status l = ACTIVE) = (brightness l > 0))"
| "status_consistent (Camera c) = ((status c = ACTIVE) = recording c)"
| "status_consistent (Signal s) =
     (status s = ACTIVE \<longrightarrow> current_signal s \<in> set [''red'', ''yellow'', ''green''])"

section \<open>Properties of the devices\<close>

text \<open>
  C7. For a street light and an integer \<open>b\<close> in \<open>[0,100]\<close>, \<open>set_brightness(b)\<close> returns
  true and afterwards the status is Active exactly when \<open>b > 0\<close>; for \<open>b\<close> outside
  \<open>[0,100]\<close> it returns false and the light (brightness and status included) is unchanged.
\<close>

theorem set_brightness_spec:
  "(0 \<le> b \<and> b \<le> 100 \<longrightarrow>
      fst (set_brightness b now d) = True \<and>
      brightness (snd (set_brightness b now d)) = b \<and>
      (status (snd (set_brightness b now d)) = ACTIVE \<longleftrightarrow> b > 0)) \<and>
   (\<not> (0 \<le> b \<and> b \<le> 100) \<longrightarrow>
      fst (set_brightness b now d) = False \<and>
      snd (set_brightness b now d) = d \<and>
      brightness (snd (set_brightness b now d)) = brightness d \<and>
      status (snd (set_brightness b now d)) = status d)"
  by (simp add: set_brightness_def)

theorem set_brightness_spec_witness:
  "fst (set_brightness 40 ''t1'' sample_light) = True \<and>
   brightness (snd (set_brightness 40 ''t1'' sample_light)) = 40 \<and>
   status (snd (set_brightness 40 ''t1'' sample_light)) = ACTIVE \<and>
   fst (set_brightness 0 ''t1'' dimmed_light) = True \<and>
   status (snd (set_brightness 0 ''t1'' dimmed_light)) \<noteq> ACTIVE \<and>
   fst (set_brightness 101 ''t1'' dimmed_light) = False \<and>
   snd (set_brightness 101 ''t1'' dimmed_light) = dimmed_light \<and>
   fst (set_brightness (- 1) ''t1'' dimmed_light) = False \<and>
   snd (set_brightness (- 1) ''t1'' dimmed_light) = dimmed_light"
  using set_brightness_spec [of 40 "''t1''" sample_light]
        set_brightness_spec [of 0 "''t1''" dimmed_light]
        set_brightness_spec [of 101 "''t1''" dimmed_light]
        set_brightness_spec [of "- 1" "''t1''" dimmed_light]
  by simp

lemma apply_call_consistent:
  "status_consistent d \<Longrightarrow>
   (case apply_call c now d of Inr d' \<Rightarrow> status_consistent d' | Inl e \<Rightarrow> e = AttributeError)"
  by (cases c; cases d)
    (auto simp: StreetLight_activate_def StreetLight_deactivate_def set_brightness_def
       TrafficSignal_activate_def TrafficSignal_deactivate_def set_signal_def
       SecurityCamera_activate_def SecurityCamera_deactivate_def)

text \<open>
  C3, as the code has it. A device whose status fits the condition of its class to
  begin with, as a device constructed with the defaults does, still fits it after every
  sequence of calls of \<open>activate\<close>, \<open>deactivate\<close>, \<open>set_brightness\<close> and \<open>set_signal\<close>. For
  a street light the condition is \<open>status == Active\<close> iff \<open>brightness > 0\<close>, for a camera
  \<open>status == Active\<close> iff \<open>recording\<close>, and for a traffic signal only that an Active
  signal shows red, yellow or green. A call of a method the class lacks raises
  \<open>AttributeError\<close>, and nothing else is raised.
\<close>

theorem status_consistent_after_calls:
  "status_consistent d \<Longrightarrow>
   (case run_calls cs d of Inr d' \<Rightarrow> status_consistent d' | Inl e \<Rightarrow> e = AttributeError)"
proof (induction cs arbitrary: d)
  case Nil
  then show ?case by simp
next
  case (Cons a cs)
  obtain c now where a: "a = (c, now)" by (cases a)
  show ?case
  proof (cases "apply_call c now d")
    case (Inl e)
    with apply_call_consistent [OF Cons.prems, of c now] show ?thesis
      by (simp add: a)
  next
    case (Inr d')
    with apply_call_consistent [OF Cons.prems, of c now] have "status_consistent d'"
      by simp
    from Cons.IH [OF this] show ?thesis
      by (simp add: a Inr)
  qed
qed

theorem status_consistent_after_calls_witness:
  "status_consistent (Light sample_light) \<and>
   (case run_calls [(Activate, ''t1''), (SetBrightness 0, ''t2''), (SetBrightness 500, ''t3''),
                    (SetBrightness 30, ''t4'')] (Light sample_light) of
      Inr (Light l) \<Rightarrow> status l = ACTIVE \<and> brightness l = 30 \<and> status_consistent (Light l)
    | _ \<Rightarrow> False) \<and>
   status_consistent (Camera sample_camera) \<and>
   (case run_calls [(Activate, ''t1''), (Deactivate, ''t2'')] (Camera sample_camera) of
      Inr (Camera c) \<Rightarrow> status c = INACTIVE \<and> \<not> recording c \<and> status_consistent (Camera c)
    | _ \<Rightarrow> False) \<and>
   status_consistent (Signal sample_signal) \<and>
   (case run_calls [(SetSignal ''yellow'', ''t1'')] (Signal sample_signal) of
      Inr (Signal s) \<Rightarrow>
        status s = ACTIVE \<and> current_signal s = ''yellow'' \<and> status_consistent (Signal s)
    | _ \<Rightarrow> False)"
  using status_consistent_after_calls [of "Light sample_light"
          "[(Activate, ''t1''), (SetBrightness 0, ''t2''), (SetBrightness 500, ''t3''),
            (SetBrightness 30, ''t4'')]"]
        status_consistent_after_calls [of "Camera sample_camera"
          "[(Activate, ''t1''), (Deactivate, ''t2'')]"]
        status_consistent_after_calls [of "Signal sample_signal" "[(SetSignal ''yellow'', ''t1'')]"]
  by (simp add: sample_light_def sample_camera_def sample_signal_def
        StreetLight_init_def SecurityCamera_init_def TrafficSignal_init_def
        StreetLight_activate_def set_brightness_def set_signal_def
        SecurityCamera_activate_def SecurityCamera_deactivate_def)

text \<open>
  C3 as stated fails for traffic signals: the status is not a function of the signal.
  After \<open>deactivate()\<close> the signal of \<open>TS001\<close> is \<open>red\<close> and the status Inactive; after
  \<open>set_signal('red')\<close> the signal is \<open>red\<close> and the status Active. It also fails for a
  street light constructed with \<open>status=ACTIVE\<close> at the default brightness 0, on which
  \<open>set_brightness(500)\<close> is refused.
\<close>

theorem traffic_signal_status_not_determined_by_signal:
  "(case run_calls [(Deactivate, ''t1'')] (Signal sample_signal) of
      Inr (Signal s) \<Rightarrow> status s = INACTIVE \<and> current_signal s = ''red''
    | _ \<Rightarrow> False) \<and>
   (case run_calls [(SetSignal ''red'', ''t1'')] (Signal sample_signal) of
      Inr (Signal s) \<Rightarrow> status s = ACTIVE \<and> current_signal s = ''red''
    | _ \<Rightarrow> False) \<and>
   (case run_calls [(SetBrightness 500, ''t1'')] (Light (sample_light\<lparr>status := ACTIVE\<rparr>)) of
      Inr (Light l) \<Rightarrow> status l = ACTIVE \<and> brightness l = 0
    | _ \<Rightarrow> False)"
  by (simp add: sample_signal_def TrafficSignal_init_def TrafficSignal_deactivate_def
        set_signal_def sample_light_def StreetLight_init_def set_brightness_def)

section \<open>Properties of the commands\<close>

text \<open>
  C1. Running \<open>execute()\<close> of the TurnOn command on a registered street light and then
  \<open>undo()\<close> should restore the light's status and brightness. The code does not:
  \<open>execute\<close> takes the snapshot, and \<open>undo\<close> calls \<open>deactivate()\<close> without reading it.
  On \<open>SL001\<close>, Active at brightness 40, both calls succeed and the light ends Inactive at
  brightness 0.
\<close>

theorem LightOn_undo_loses_previous_state:
  "case execute (LightOnCommand ''SL001'' 100 None) ''t1'' dimmed_world of
     (r, c, w1) \<Rightarrow>
       (case undo c ''t2'' w1 of
          (r2, w2) \<Rightarrow>
            get_device dimmed_world ''SL001'' = Some (Light dimmed_light) \<and>
            status dimmed_light = ACTIVE \<and> brightness dimmed_light = 40 \<and>
            r = Inr [(''success'', PBool True), (''device_id'', PStr ''SL001''),
                     (''action'', PStr ''light_on''), (''brightness'', PInt 100),
                     (''timestamp'', PStr ''t1'')] \<and>
            c = LightOnCommand ''SL001'' 100 (Some (ACTIVE, 40)) \<and>
            r2 = [(''success'', PBool True), (''action'', PStr ''undo_light_on'')] \<and>
            get_device w2 ''SL001'' =
              Some (Light (dimmed_light\<lparr>status := INACTIVE, brightness := 0,
                                         last_updated := ''t2''\<rparr>)))"
  by (simp add: dimmed_world_def dimmed_light_def sample_world_def sample_light_def
        StreetLight_init_def get_device_def StreetLight_activate_def
        StreetLight_deactivate_def set_brightness_def)

text \<open>
  C10. For a registered street light whose brightness is 0 when \<open>LightOffCommand.execute()\<close>
  runs, \<open>execute\<close> succeeds and saves the brightness 0; a following \<open>undo()\<close> returns
  \<open>{success: false, error: 'Cannot undo'}\<close> and leaves the light Inactive at brightness 0.
\<close>

theorem LightOff_undo_of_dark_light:
  assumes "get_device w did = Some (Light l)" and "brightness l = 0"
  shows "case execute (LightOffCommand did prev) now w of
           (r, c, w1) \<Rightarrow>
             r = Inr [(''success'', PBool True), (''device_id'', PStr did),
                      (''action'', PStr ''light_off''), (''timestamp'', PStr now)] \<and>
             c = LightOffCommand did (Some 0) \<and>
             undo c now' w1 = ([(''success'', PBool False), (''error'', PStr ''Cannot undo'')], w1) \<and>
             get_device w1 did =
               Some (Light (l\<lparr>status := INACTIVE, brightness := 0, last_updated := now\<rparr>))"
  using assms
  by (simp add: get_device_def failure_def StreetLight_deactivate_def StreetLight_activate_def
        set_brightness_def)

theorem LightOff_undo_of_dark_light_witness:
  "get_device sample_world ''SL001'' = Some (Light sample_light) \<and>
   brightness sample_light = 0 \<and>
   (case execute (LightOffCommand ''SL001'' None) ''t1'' sample_world of
      (r, c, w1) \<Rightarrow>
        r = Inr [(''success'', PBool True), (''device_id'', PStr ''SL001''),
                 (''action'', PStr ''light_off''), (''timestamp'', PStr ''t1'')] \<and>
        c = LightOffCommand ''SL001'' (Some 0) \<and>
        undo c ''t2'' w1 = ([(''success'', PBool False), (''error'', PStr ''Cannot undo'')], w1) \<and>
        get_device w1 ''SL001'' =
          Some (Light (sample_light\<lparr>status := INACTIVE, brightness := 0,
                                     last_updated := ''t1''\<rparr>)))"
proof -
  have registered: "get_device sample_world ''SL001'' = Some (Light sample_light)"
    by (simp add: get_device_def sample_world_def)
  have dark: "brightness sample_light = 0"
    by (simp add: sample_light_def StreetLight_init_def)
  from LightOff_undo_of_dark_light [OF registered dark,
         where prev = None and now = "''t1''" and now' = "''t2''"] registered dark
  show ?thesis by simp
qed

text \<open>
  C6, as the code has it. \<open>undo()\<close> on a command that has never been executed returns a
  failure result and leaves every device and the banking state as they are. The error
  is \<open>No previous state to restore\<close> for TurnOn, \<open>Cannot undo\<close> for TurnOff and the two
  signal commands, and \<open>No transaction to refund\<close> for a payment.
\<close>

theorem undo_before_execute:
  "undo (LightOnCommand did br None) now w =
     ([(''success'', PBool False), (''error'', PStr ''No previous state to restore'')], w) \<and>
   undo (LightOffCommand did None) now w =
     ([(''success'', PBool False), (''error'', PStr ''Cannot undo'')], w) \<and>
   undo (TrafficGreenCommand did None) now w =
     ([(''success'', PBool False), (''error'', PStr ''Cannot undo'')], w) \<and>
   undo (TrafficRedCommand did None) now w =
     ([(''success'', PBool False), (''error'', PStr ''Cannot undo'')], w) \<and>
   undo (ProcessPaymentCommand api resident amount currency ptype descr PNone) now w =
     ([(''success'', PBool False), (''error'', PStr ''No transaction to refund'')], w)"
  by (simp add: failure_def split: option.splits)

text \<open>
  C6 as stated fails for the payment command: the error of its \<open>undo()\<close> before
  \<open>execute()\<close> is neither of the two texts the device commands use.
\<close>

theorem payment_undo_error_text:
  "undo (ProcessPaymentCommand sample_bank ''R001'' 50 ''USD'' ''fiat'' ''City Service Payment''
           PNone) ''t1'' sample_world
     = ([(''success'', PBool False), (''error'', PStr ''No transaction to refund'')], sample_world) \<and>
   dict_get (fst (undo (ProcessPaymentCommand sample_bank ''R001'' 50 ''USD'' ''fiat''
                          ''City Service Payment'' PNone) ''t1'' sample_world)) ''error''
     \<notin> {PStr ''No previous state to restore'', PStr ''Cannot undo''}"
  by (simp add: failure_def dict_get_def dict_get_default_def)

text \<open>
  C4. A device-control command whose target id is not in the registry returns from
  \<open>execute()\<close> the result \<open>{success: false, error: "Device <id> not found"}\<close>, or
  \<open>"Traffic signal <id> not found"\<close> for the two signal commands, changing neither the
  command nor the registry; the invoker appends the history entry with that result, which
  \<open>get_history\<close> shows with \<open>success: false\<close>.
\<close>

theorem execute_unregistered_device:
  assumes "get_device w did = None"
    and "(cmd = LightOnCommand did br pa \<or> cmd = LightOffCommand did pb) \<and> what = ''Device'' \<or>
         (cmd = TrafficGreenCommand did pc \<or> cmd = TrafficRedCommand did pd) \<and>
           what = ''Traffic signal''"
  shows "let res = [(''success'', PBool False),
                    (''error'', PStr (what @ '' '' @ did @ '' not found''))];
             ivk' = ivk\<lparr>history := history ivk @
                            [\<lparr> h_command = cmd, h_result = res, h_timestamp = now \<rparr>],
                        undo_stack := undo_stack ivk @ [cmd]\<rparr>
         in execute cmd now w = (Inr res, cmd, w) \<and>
            Invoker_execute cmd now ivk w = (Inr res, ivk', w) \<and>
            get_history 1 ivk' =
              [[(''command'', PStr (get_description cmd)), (''success'', PBool False),
                (''timestamp'', PStr now)]]"
  using assms
  by (auto simp: Let_def not_found_def Invoker_execute_def get_history_def py_slice_from_def
        history_view_def dict_get_default_def)

theorem execute_unregistered_device_witness:
  "get_device sample_world ''SL999'' = None \<and>
   execute (LightOnCommand ''SL999'' 100 None) ''t1'' sample_world =
     (Inr [(''success'', PBool False), (''error'', PStr ''Device SL999 not found'')],
      LightOnCommand ''SL999'' 100 None, sample_world) \<and>
   Invoker_execute (LightOnCommand ''SL999'' 100 None) ''t1'' CommandInvoker_init sample_world =
     (Inr [(''success'', PBool False), (''error'', PStr ''Device SL999 not found'')],
      \<lparr> history =
          [\<lparr> h_command = LightOnCommand ''SL999'' 100 None,
             h_result = [(''success'', PBool False), (''error'', PStr ''Device SL999 not found'')],
             h_timestamp = ''t1'' \<rparr>],
        undo_stack = [LightOnCommand ''SL999'' 100 None] \<rparr>,
      sample_world) \<and>
   execute (TrafficGreenCommand ''SL999'' None) ''t1'' sample_world =
     (Inr [(''success'', PBool False), (''error'', PStr ''Traffic signal SL999 not found'')],
      TrafficGreenCommand ''SL999'' None, sample_world)"
proof -
  have absent: "get_device sample_world ''SL999'' = None"
    by (simp add: get_device_def sample_world_def)
  from execute_unregistered_device [OF absent,
         where cmd = "LightOnCommand ''SL999'' 100 None" and br = 100 and pa = None
           and pb = None and pc = None and pd = None and what = "''Device''"
           and ivk = CommandInvoker_init and now = "''t1''"]
       execute_unregistered_device [OF absent,
         where cmd = "TrafficGreenCommand ''SL999'' None" and br = 100 and pa = None
           and pb = None and pc = None and pd = None and what = "''Traffic signal''"
           and ivk = CommandInvoker_init and now = "''t1''"]
       absent
  show ?thesis
    by (simp add: Let_def CommandInvoker_init_def)
qed

section \<open>Properties of the invoker\<close>

lemma str_int_100: "str_int 100 = ''100''"
  by code_simp

lemma get_history_zero: "get_history 0 ivk = map history_view (history ivk)"
  by (simp add: get_history_def py_slice_from_def)

text \<open>For a positive limit \<open>get_history\<close> returns the last \<open>min(limit, n)\<close> entries in order.\<close>

lemma get_history_positive_limit:
  "0 < limit \<Longrightarrow>
   get_history limit ivk =
     map history_view (drop (length (history ivk) - nat limit) (history ivk)) \<and>
   length (get_history limit ivk) = min (nat limit) (length (history ivk))"
  by (auto simp: get_history_def py_slice_from_def Let_def max_def nat_diff_distrib'
        intro!: arg_cong2 [where f = drop])

text \<open>
  C8. \<open>get_history(limit)\<close> should return the most recent \<open>min(limit, n)\<close> entries for every
  \<open>limit >= 0\<close>. At \<open>limit = 0\<close> the code returns the whole history: the slice
  \<open>self._history[-limit:]\<close> is \<open>self._history[0:]\<close>. After one executed command
  \<open>get_history(0)\<close> has one entry, not none.
\<close>

theorem get_history_zero_limit_returns_all:
  "case Invoker_execute (LightOnCommand ''SL001'' 100 None) ''t1'' CommandInvoker_init sample_world of
     (r, ivk1, w1) \<Rightarrow>
       length (history ivk1) = 1 \<and>
       get_history 0 ivk1 =
         [[(''command'', PStr ''Turn on light SL001 at 100% brightness''),
           (''success'', PBool True), (''timestamp'', PStr ''t1'')]] \<and>
       length (get_history 0 ivk1) \<noteq> min 0 (length (history ivk1))"
  by (simp add: get_history_zero Invoker_execute_def CommandInvoker_init_def sample_world_def
        sample_light_def StreetLight_init_def get_device_def StreetLight_activate_def
        set_brightness_def history_view_def dict_get_default_def str_int_100)

section \<open>Properties of the notification service\<close>

lemma in_set_le_foldr_max: "x \<in> set xs \<Longrightarrow> x \<le> foldr max xs (0::nat)"
  by (induction xs) (auto simp: max_def)

lemma fresh_ref_fresh:
  "r \<in> set (notifications s) \<union> set (security_alerts s) \<Longrightarrow> r < fresh_ref s"
  using in_set_le_foldr_max [of r "notifications s @ security_alerts s"]
  by (auto simp: fresh_ref_def)

lemma store_notification_fields:
  "fst (store_notification m t kw now s) = fresh_ref s"
  "records (snd (store_notification m t kw now s))
     = (records s)(fresh_ref s := new_notification m t kw now s)"
  "notifications (snd (store_notification m t kw now s)) = notifications s @ [fresh_ref s]"
  "security_alerts (snd (store_notification m t kw now s))
     = (if t \<in> set [PStr ''security'', PStr ''emergency'']
        then security_alerts s @ [fresh_ref s] else security_alerts s)"
  "observers (snd (store_notification m t kw now s)) = observers s"
  "objects (snd (store_notification m t kw now s)) = objects s"
  by (simp_all add: store_notification_def Let_def)

lemma store_notification_stored:
  "stored (snd (store_notification m t kw now s)) = stored s @ [new_notification m t kw now s]"
  using fresh_ref_fresh [of _ s]
  by (auto simp: stored_def store_notification_fields)





text \<open>
  The code of the service does not change a stored record: storing appends to the log,
  trimming keeps a suffix of it. An observer that is handed the dictionary can write
  into it, and the log and the caller then see what it wrote.
\<close>

lemma service_code_keeps_records:
  "take (length (stored s)) (stored (snd (store_notification m t kw now s))) = stored s"
  "\<exists>k. stored (snd (clear_old_notifications keep_count s)) = drop k (stored s)"
proof -
  show "take (length (stored s)) (stored (snd (store_notification m t kw now s))) = stored s"
    by (simp add: store_notification_stored)
  show "\<exists>k. stored (snd (clear_old_notifications keep_count s)) = drop k (stored s)"
  proof (cases "int (length (notifications s)) > keep_count")
    case True
    then show ?thesis
      by (auto simp: clear_old_notifications_def py_slice_from_def Let_def stored_def drop_map)
  next
    case False
    then have "stored (snd (clear_old_notifications keep_count s)) = drop 0 (stored s)"
      by (simp add: clear_old_notifications_def)
    then show ?thesis by blast
  qed
qed

lemma observer_can_rewrite_stored_record:
  "case notify unruly_classes (PStr ''Fire alarm'') (PStr ''emergency'') [] ''t1'' redactor_service of
      Some (r, s) \<Rightarrow>
        stored s = [[(''id'', PInt 1), (''message'', PStr ''redacted''),
                     (''type'', PStr ''emergency''), (''timestamp'', PStr ''t1'')]] \<and>
        stored_alerts s = stored s \<and> r = Inr (hd (stored s))
    | None \<Rightarrow> False"
  by (simp add: notify_def store_notification_def fresh_ref_def new_notification_def
        redactor_service_def attach_def stored_def stored_alerts_def
        NotificationService_init_def update_def unruly_classes_def fan_out.simps
        dict_merge_def dict_get_def dict_get_default_def Let_def)

text \<open>
  C2. Each notification should get an id greater than the id of every notification
  created before it, through any sequence of \<open>notify()\<close> and trim calls. The id is
  \<open>len(self._notifications) + 1\<close>, so it falls back after a trim: three calls of \<open>notify\<close>
  give the ids 1, 2, 3; \<open>clear_old_notifications(2)\<close> removes one record and keeps the ids
  2, 3; the next \<open>notify\<close> gives the id 3 again, and the log holds two records with id 3.
\<close>

theorem notification_id_reused_after_trim:
  "case notify no_classes (PStr ''a'') (PStr ''info'') [] ''t1'' NotificationService_init of
     Some (r1, s1) \<Rightarrow>
       (case notify no_classes (PStr ''b'') (PStr ''info'') [] ''t2'' s1 of
          Some (r2, s2) \<Rightarrow>
            (case notify no_classes (PStr ''c'') (PStr ''info'') [] ''t3'' s2 of
               Some (r3, s3) \<Rightarrow>
                 map (\<lambda>n. dict_get n ''id'') (stored s3) = [PInt 1, PInt 2, PInt 3] \<and>
                 (case clear_old_notifications 2 s3 of
                    (removed, s4) \<Rightarrow>
                      removed = 1 \<and>
                      map (\<lambda>n. dict_get n ''id'') (stored s4) = [PInt 2, PInt 3] \<and>
                      (case notify no_classes (PStr ''d'') (PStr ''info'') [] ''t4'' s4 of
                         Some (r5, s5) \<Rightarrow>
                           r5 = Inr [(''id'', PInt 3), (''message'', PStr ''d''),
                                     (''type'', PStr ''info''), (''timestamp'', PStr ''t4'')] \<and>
                           map (\<lambda>n. dict_get n ''id'') (stored s5) = [PInt 2, PInt 3, PInt 3]
                       | None \<Rightarrow> False))
             | None \<Rightarrow> False)
        | None \<Rightarrow> False)
   | None \<Rightarrow> False"
  by (simp add: notify_def store_notification_def fresh_ref_def new_notification_def
        NotificationService_init_def fan_out.simps stored_def
        clear_old_notifications_def py_slice_from_def
        dict_merge_def dict_get_def dict_get_default_def Let_def)















end
